theory Spec2Isabelle
  imports Main
begin

section \<open>The repository service of vcsstore (service.go)\<close>

text \<open>
  A shallow embedding of \<^verbatim>\<open>service.go\<close>: the \<^verbatim>\<open>service\<close> struct with its three maps,
  and the methods \<^verbatim>\<open>CloneDir\<close>, \<^verbatim>\<open>Open\<close>, \<^verbatim>\<open>open\<close>, \<^verbatim>\<open>Close\<close>, \<^verbatim>\<open>Clone\<close> and \<^verbatim>\<open>Mutex\<close>.

  The methods mutate the service and act on the disk. Both are made explicit: every
  method takes the service and a \<open>world\<close> (the disk, the allocator of fresh objects,
  the supply of random suffixes of \<^verbatim>\<open>ioutil.TempDir\<close>, and the trace of the external
  calls made so far) and returns them updated. A Go result \<^verbatim>\<open>(interface{}, error)\<close> is a
  sum: \<open>Inl\<close> the error, \<open>Inr\<close> the repository. Logging is not modelled.

  Go's \<^verbatim>\<open>int\<close> counters are modelled by unbounded integers: a counter moves by one per
  call, so it leaves the range of a machine integer only after more than \<open>2^31\<close> calls.
\<close>

subsection \<open>Errors\<close>

datatype error =
    ErrNotExist string     \<comment> \<open>ENOENT: the errors that satisfy \<^verbatim>\<open>os.IsNotExist\<close>\<close>
  | ErrExist string        \<comment> \<open>EEXIST\<close>
  | ErrNotDir string       \<comment> \<open>ENOTDIR\<close>
  | ErrNotEmpty string     \<comment> \<open>ENOTEMPTY\<close>
  | ErrCloneNotDir string  \<comment> \<open>\<^verbatim>\<open>fmt.Errorf("clone path %q is not a directory", cloneDir)\<close>\<close>
  | ErrOther string        \<comment> \<open>any other error of an external collaborator\<close>

fun os_IsNotExist :: "error \<Rightarrow> bool" where
  "os_IsNotExist (ErrNotExist p) = True"
| "os_IsNotExist e = False"

text \<open>\<^verbatim>\<open>os.IsNotExist(err)\<close> on the error of a result; it is false on a nil error.\<close>

fun IsNotExist_result :: "error + 'a \<Rightarrow> bool" where
  "IsNotExist_result (Inl e) = os_IsNotExist e"
| "IsNotExist_result (Inr r) = False"

subsection \<open>Paths\<close>

text \<open>
  \<^verbatim>\<open>filepath.Join\<close>, \<^verbatim>\<open>filepath.Dir\<close> and \<^verbatim>\<open>filepath.Base\<close> of the Go library, on paths that
  are already clean (no \<^verbatim>\<open>..\<close>, no doubled or trailing separator): \<^verbatim>\<open>filepath.Clean\<close>
  itself is not modelled.
\<close>

definition filepath_Join :: "string \<Rightarrow> string \<Rightarrow> string" where
  "filepath_Join a b =
     (if a = [] \<or> a = ''.'' then b
      else if b = [] then a
      else if a = ''/'' then a @ b
      else a @ ''/'' @ b)"

definition filepath_Dir :: "string \<Rightarrow> string" where
  "filepath_Dir p =
     (if CHR ''/'' \<notin> set p then ''.''
      else let d = rev (tl (dropWhile (\<lambda>c. c \<noteq> CHR ''/'') (rev p)))
           in if d = [] then ''/'' else d)"

definition filepath_Base :: "string \<Rightarrow> string" where
  "filepath_Base p =
     (if p = [] then ''.''
      else let b = rev (takeWhile (\<lambda>c. c \<noteq> CHR ''/'') (rev p))
           in if b = [] then ''/'' else b)"

subsection \<open>The disk and the external collaborators\<close>

text \<open>
  The disk is a map from paths to nodes. A directory carries the names written into it
  (the repository data is opaque to the service).
\<close>

datatype node = File | Dir "string list"

type_synonym filesys = "string \<rightharpoonup> node"

text \<open>
  A repository is the value \<^verbatim>\<open>vcs.Open\<close> returns: an object with an identity of its own
  (two calls give two objects), bound to a VCS type and a directory. It is never nil:
  \<^verbatim>\<open>vcs.Open\<close> returns a repository or an error.
\<close>

datatype repo = Repo (repo_id: nat) (repo_vcs: string) (repo_dir: string)

record CloneInfo =
  VCS :: string
  CloneURL :: string
  RemoteOpts :: string

text \<open>
  The functions that \<^verbatim>\<open>service.go\<close> calls and that are not part of it are parameters:
  \<^verbatim>\<open>EncodeRepositoryPath\<close> and \<^verbatim>\<open>vcsTypeFromDir\<close> (of this package, in another file), and
  \<^verbatim>\<open>vcs.Open\<close> and \<^verbatim>\<open>vcs.Clone\<close> of go-vcs. \<^verbatim>\<open>vcsTypeFromDir\<close> and \<^verbatim>\<open>vcs.Open\<close> may read the
  disk. \<^verbatim>\<open>vcs.Open\<close> gives \<open>None\<close> when it succeeds. \<^verbatim>\<open>vcs.Clone\<close> gives its error, if any,
  and the names it wrote into the directory it was given (also when it fails).
\<close>

record externals =
  EncodeRepositoryPath :: "string \<Rightarrow> string"
  vcsTypeFromDir :: "filesys \<Rightarrow> string \<Rightarrow> error + string"
  vcs_Open :: "filesys \<Rightarrow> string \<Rightarrow> string \<Rightarrow> error option"
  vcs_Clone :: "CloneInfo \<Rightarrow> string \<Rightarrow> error option \<times> string list"

datatype event =
    EvDetect string                 \<comment> \<open>\<^verbatim>\<open>vcsTypeFromDir(dir)\<close>\<close>
  | EvStat string                   \<comment> \<open>\<^verbatim>\<open>os.Stat(dir)\<close>\<close>
  | EvVcsOpen string string         \<comment> \<open>\<^verbatim>\<open>vcs.Open(vcsType, dir)\<close>\<close>
  | EvLock nat                      \<comment> \<open>\<^verbatim>\<open>mu.Lock()\<close> on a per-directory mutex\<close>
  | EvUnlock nat                    \<comment> \<open>\<^verbatim>\<open>mu.Unlock()\<close>\<close>
  | EvMkdirAll string
  | EvTempDir string string
  | EvVcsClone string "error option" \<comment> \<open>\<^verbatim>\<open>vcs.Clone\<close> into a directory, and its error\<close>
  | EvRename string string
  | EvRemoveAll string

record world =
  fs :: filesys
  next_id :: nat
  suffixes :: "string list"
  trace :: "event list"

definition emit :: "event \<Rightarrow> world \<Rightarrow> world" where
  "emit e w = w\<lparr>trace := trace w @ [e]\<rparr>"

text \<open>The events of a call that starts in \<open>w\<close> and ends in \<open>w'\<close>.\<close>

definition new_events :: "world \<Rightarrow> world \<Rightarrow> event list" where
  "new_events w w' = drop (length (trace w)) (trace w')"

text \<open>
  \<^verbatim>\<open>os.Stat\<close> fails with ENOENT on a path that is not on the disk, \<^verbatim>\<open>os.MkdirAll\<close> with ENOTDIR
  on a path that is a file; other failures of the disk (permissions, a full disk) are not
  modelled.
\<close>

definition os_Stat :: "string \<Rightarrow> world \<Rightarrow> error + node" where
  "os_Stat p w = (case fs w p of None \<Rightarrow> Inl (ErrNotExist p) | Some n \<Rightarrow> Inr n)"

fun IsDir :: "node \<Rightarrow> bool" where
  "IsDir (Dir names) = True"
| "IsDir File = False"

definition os_MkdirAll :: "string \<Rightarrow> world \<Rightarrow> error + world" where
  "os_MkdirAll p w =
     (case fs w p of
        Some (Dir names) \<Rightarrow> Inr w
      | Some File \<Rightarrow> Inl (ErrNotDir p)
      | None \<Rightarrow> Inr (w\<lparr>fs := (fs w)(p \<mapsto> Dir [])\<rparr>))"

text \<open>
  \<^verbatim>\<open>ioutil.TempDir(dir, prefix)\<close> tries random suffixes until \<^verbatim>\<open>os.Mkdir\<close> does not fail
  with EEXIST. \<open>TempDir_try\<close> gives the name made and the suffixes left.
\<close>

fun TempDir_try :: "filesys \<Rightarrow> string \<Rightarrow> string \<Rightarrow> string list \<Rightarrow> error + string \<times> string list" where
  "TempDir_try f dir prefix [] = Inl (ErrExist dir)"
| "TempDir_try f dir prefix (sfx # rest) =
     (let try = filepath_Join dir (prefix @ sfx) in
      if f try \<noteq> None then TempDir_try f dir prefix rest
      else (case f dir of
              None \<Rightarrow> Inl (ErrNotExist dir)
            | Some File \<Rightarrow> Inl (ErrNotDir dir)
            | Some (Dir names) \<Rightarrow> Inr (try, rest)))"

definition ioutil_TempDir :: "string \<Rightarrow> string \<Rightarrow> world \<Rightarrow> error + string \<times> world" where
  "ioutil_TempDir dir prefix w =
     (case TempDir_try (fs w) dir prefix (suffixes w) of
        Inl e \<Rightarrow> Inl e
      | Inr (name, rest) \<Rightarrow> Inr (name, w\<lparr>fs := (fs w)(name \<mapsto> Dir []), suffixes := rest\<rparr>))"

text \<open>
  \<^verbatim>\<open>os.RemoveAll(path)\<close>, as \<^verbatim>\<open>Clone\<close> defers it: its error is dropped there, and the model takes
  the removal to work. A path that does not exist is left as it is.
\<close>

definition os_RemoveAll :: "string \<Rightarrow> world \<Rightarrow> world" where
  "os_RemoveAll p w = emit (EvRemoveAll p) (w\<lparr>fs := (fs w)(p := None)\<rparr>)"

text \<open>
  \<^verbatim>\<open>os.Rename(old, new)\<close> of a directory, as rename(2) does it: onto nothing or onto an
  empty directory.
\<close>

definition os_Rename :: "string \<Rightarrow> string \<Rightarrow> world \<Rightarrow> error + world" where
  "os_Rename old new w =
     (case fs w old of
        None \<Rightarrow> Inl (ErrNotExist old)
      | Some n \<Rightarrow>
          (case fs w new of
             Some File \<Rightarrow> Inl (ErrNotDir new)
           | Some (Dir (x # xs)) \<Rightarrow> Inl (ErrNotEmpty new)
           | _ \<Rightarrow> Inr (w\<lparr>fs := (fs w)(old := None, new \<mapsto> n)\<rparr>)))"

subsection \<open>The service\<close>

datatype repoKey = RepoKey (cloneDir: string)

text \<open>
  \<^verbatim>\<open>Config\<close> is embedded in \<^verbatim>\<open>service\<close>; of its fields only \<^verbatim>\<open>StorageDir\<close> matters here.
  A \<^verbatim>\<open>*sync.RWMutex\<close> is the identity of the object allocated.
\<close>

record service =
  StorageDir :: string
  repoMu :: "repoKey \<rightharpoonup> nat"
  repos :: "repoKey \<rightharpoonup> repo"
  repoUsers :: "repoKey \<rightharpoonup> int"

definition NewService :: "string \<Rightarrow> service" where
  "NewService dir = \<lparr>StorageDir = dir, repoMu = Map.empty, repos = Map.empty, repoUsers = Map.empty\<rparr>"

text \<open>Reading a Go map of integers at a missing key gives 0.\<close>

definition users :: "service \<Rightarrow> repoKey \<Rightarrow> int" where
  "users s key = (case repoUsers s key of None \<Rightarrow> 0 | Some c \<Rightarrow> c)"

definition CloneDir :: "externals \<Rightarrow> service \<Rightarrow> string \<Rightarrow> error + string" where
  "CloneDir x s repoPath = Inr (filepath_Join (StorageDir s) (EncodeRepositoryPath x repoPath))"

text \<open>
  \<^verbatim>\<open>open\<close>, lines 95 to 118: the detection of the VCS type, the first section under
  \<^verbatim>\<open>repoMuMu\<close> (the look-up in \<^verbatim>\<open>repos\<close>), and the I/O. It does not change the service.
  It ends with the result of \<^verbatim>\<open>open\<close>, or with a repository just opened that the second
  section has still to register.
\<close>

datatype checked = Returned "error + repo" | Opened repo

definition open_check :: "externals \<Rightarrow> string \<Rightarrow> service \<Rightarrow> world \<Rightarrow> checked \<times> world" where
  "open_check x dir s w =
     (let key = RepoKey dir; w1 = emit (EvDetect dir) w in
      case vcsTypeFromDir x (fs w) dir of
        Inl e \<Rightarrow> (Returned (Inl e), w1)
      | Inr vcsType \<Rightarrow>
          (case repos s key of
             Some r \<Rightarrow> (Returned (Inr r), w1)
           | None \<Rightarrow>
               (let w2 = emit (EvStat dir) w1 in
                case os_Stat dir w2 of
                  Inl e \<Rightarrow> (Returned (Inl e), w2)
                | Inr fi \<Rightarrow>
                    if \<not> IsDir fi then (Returned (Inl (ErrCloneNotDir dir)), w2)
                    else
                      (let w3 = emit (EvVcsOpen vcsType dir) w2 in
                       case vcs_Open x (fs w) vcsType dir of
                         Some e \<Rightarrow> (Returned (Inl e), w3)
                       | None \<Rightarrow> (Opened (Repo (next_id w) vcsType dir),
                                   w3\<lparr>next_id := Suc (next_id w)\<rparr>)))))"

text \<open>
  \<^verbatim>\<open>open\<close>, lines 120 to 132: the second section under \<^verbatim>\<open>repoMuMu\<close>. It counts the user,
  and keeps the repository already registered if there is one.
\<close>

definition open_commit :: "repoKey \<Rightarrow> repo \<Rightarrow> service \<Rightarrow> repo \<times> service" where
  "open_commit key r s =
     (let s1 = s\<lparr>repoUsers := (repoUsers s)(key \<mapsto> users s key + 1)\<rparr> in
      case repos s1 key of
        Some r' \<Rightarrow> (r', s1)
      | None \<Rightarrow> (r, s1\<lparr>repos := (repos s1)(key \<mapsto> r)\<rparr>))"

text \<open>\<^verbatim>\<open>open\<close> run by one goroutine alone: the two sections, one after the other.\<close>

definition open_dir :: "externals \<Rightarrow> string \<Rightarrow> service \<times> world \<Rightarrow> (error + repo) \<times> service \<times> world" where
  "open_dir x dir sw =
     (case sw of (s, w) \<Rightarrow>
        (case open_check x dir s w of
           (Returned res, w') \<Rightarrow> (res, s, w')
         | (Opened r, w') \<Rightarrow>
             (case open_commit (RepoKey dir) r s of (r', s') \<Rightarrow> (Inr r', s', w'))))"

definition Open :: "externals \<Rightarrow> string \<Rightarrow> service \<times> world \<Rightarrow> (error + repo) \<times> service \<times> world" where
  "Open x repoPath sw =
     (case CloneDir x (fst sw) repoPath of
        Inl e \<Rightarrow> (Inl e, sw)
      | Inr dir \<Rightarrow> open_dir x dir sw)"

text \<open>\<^verbatim>\<open>Close\<close> panics on an error of \<^verbatim>\<open>CloneDir\<close>: \<open>Inl\<close> is the panic.\<close>

definition Close :: "externals \<Rightarrow> string \<Rightarrow> service \<Rightarrow> error + service" where
  "Close x repoPath s =
     (case CloneDir x s repoPath of
        Inl e \<Rightarrow> Inl e
      | Inr dir \<Rightarrow>
          (let key = RepoKey dir;
               s1 = s\<lparr>repoUsers := (repoUsers s)(key \<mapsto> users s key - 1)\<rparr>
           in if users s1 key = 0
              then Inr (s1\<lparr>repoUsers := (repoUsers s1)(key := None), repos := (repos s1)(key := None)\<rparr>)
              else Inr s1))"

definition Mutex :: "repoKey \<Rightarrow> service \<times> world \<Rightarrow> nat \<times> service \<times> world" where
  "Mutex key sw =
     (case sw of (s, w) \<Rightarrow>
        (case repoMu s key of
           Some mu \<Rightarrow> (mu, s, w)
         | None \<Rightarrow> (next_id w, s\<lparr>repoMu := (repoMu s)(key \<mapsto> next_id w)\<rparr>,
                     w\<lparr>next_id := Suc (next_id w)\<rparr>)))"

text \<open>
  \<^verbatim>\<open>Clone\<close>, lines 205 to 221: the clone into the temporary directory, the rename, and
  the last \<^verbatim>\<open>open\<close>.
\<close>

definition clone_into :: "externals \<Rightarrow> string \<Rightarrow> string \<Rightarrow> CloneInfo \<Rightarrow> service \<times> world \<Rightarrow> (error + repo) \<times> service \<times> world" where
  "clone_into x dir tmp info sw =
     (case sw of (s, w) \<Rightarrow>
        (case vcs_Clone x info tmp of (err, names) \<Rightarrow>
           (let w1 = emit (EvVcsClone tmp err) (w\<lparr>fs := (fs w)(tmp \<mapsto> Dir names)\<rparr>) in
            case err of
              Some e \<Rightarrow> (Inl e, s, w1)
            | None \<Rightarrow>
                (let w2 = emit (EvRename tmp dir) w1 in
                 case os_Rename tmp dir w2 of
                   Inl e \<Rightarrow> (Inl e, s, w2)
                 | Inr w3 \<Rightarrow> open_dir x dir (s, w3)))))"

text \<open>
  \<^verbatim>\<open>Clone\<close>, lines 172 to 221: what runs while the per-directory mutex is held. The
  deferred \<^verbatim>\<open>os.RemoveAll(cloneTmpDir)\<close> runs on every return after the temporary
  directory was made.
\<close>

definition clone_locked :: "externals \<Rightarrow> string \<Rightarrow> CloneInfo \<Rightarrow> service \<times> world \<Rightarrow> (error + repo) \<times> service \<times> world" where
  "clone_locked x dir info sw =
     (case open_dir x dir sw of (res, s, w) \<Rightarrow>
        if \<not> IsNotExist_result res then (res, s, w)
        else
          (let parentDir = filepath_Dir dir; w1 = emit (EvMkdirAll parentDir) w in
           case os_MkdirAll parentDir w1 of
             Inl e \<Rightarrow> (Inl e, s, w1)
           | Inr w2 \<Rightarrow>
               (let prefix = ''_tmp_'' @ filepath_Base dir @ ''-'';
                    w3 = emit (EvTempDir parentDir prefix) w2 in
                case ioutil_TempDir parentDir prefix w3 of
                  Inl e \<Rightarrow> (Inl e, s, w3)
                | Inr (tmp, w4) \<Rightarrow>
                    (case clone_into x dir tmp info (s, w4) of
                       (res', s', w') \<Rightarrow> (res', s', os_RemoveAll tmp w')))))"

definition Clone :: "externals \<Rightarrow> string \<Rightarrow> CloneInfo \<Rightarrow> service \<times> world \<Rightarrow> (error + repo) \<times> service \<times> world" where
  "Clone x repoPath info sw =
     (case CloneDir x (fst sw) repoPath of
        Inl e \<Rightarrow> (Inl e, sw)
      | Inr dir \<Rightarrow>
          (case open_dir x repoPath sw of (res, s, w) \<Rightarrow>
             if \<not> IsNotExist_result res then (res, s, w)
             else
               (case Mutex (RepoKey dir) (s, w) of (mu, s1, w1) \<Rightarrow>
                  (case clone_locked x dir info (s1, emit (EvLock mu) w1) of
                     (res', s', w') \<Rightarrow> (res', s', emit (EvUnlock mu) w')))))"

subsection \<open>Runs of the service\<close>




text \<open>\<^verbatim>\<open>Close\<close> called \<open>n\<close> times in a row.\<close>

fun Close_times :: "externals \<Rightarrow> string \<Rightarrow> nat \<Rightarrow> service \<Rightarrow> error + service" where
  "Close_times x p 0 s = Inr s"
| "Close_times x p (Suc n) s =
     (case Close x p s of Inl e \<Rightarrow> Inl e | Inr s' \<Rightarrow> Close_times x p n s')"



subsection \<open>A concrete setting\<close>

text \<open>
  The storage directory is \<^verbatim>\<open>/data\<close>, the repository path \<^verbatim>\<open>x/y\<close> is encoded as itself, so
  the clone directory is \<^verbatim>\<open>/data/x/y\<close>. Every directory is taken for a git repository and
  every existing one opens. One disk has the clone, the other is empty.
\<close>

definition x0 :: externals where
  "x0 = \<lparr>EncodeRepositoryPath = (\<lambda>p. p), vcsTypeFromDir = (\<lambda>f d. Inr ''git''),
         vcs_Open = (\<lambda>f t d. None), vcs_Clone = (\<lambda>i d. (None, [''HEAD'']))\<rparr>"

definition x_fail :: externals where
  "x_fail = x0\<lparr>vcs_Clone := (\<lambda>i d. (Some (ErrOther ''network''), [''partial'']))\<rparr>"

definition x_unrecognized :: externals where
  "x_unrecognized = x0\<lparr>vcsTypeFromDir := (\<lambda>f d. Inl (ErrOther ''unrecognized''))\<rparr>"

definition info0 :: CloneInfo where
  "info0 = \<lparr>VCS = ''git'', CloneURL = ''https://example.com/x/y'', RemoteOpts = []\<rparr>"

definition k0 :: repoKey where
  "k0 = RepoKey ''/data/x/y''"

definition disk_cloned :: world where
  "disk_cloned =
     \<lparr>fs = [''/data/x/y'' \<mapsto> Dir [''HEAD'']], next_id = 0, suffixes = [''123''], trace = []\<rparr>"

definition disk_empty :: world where
  "disk_empty = \<lparr>fs = Map.empty, next_id = 0, suffixes = [''123''], trace = []\<rparr>"

text \<open>An empty disk but for a regular file at the relative path \<^verbatim>\<open>x/y\<close>.\<close>

definition disk_blocked :: world where
  "disk_blocked = \<lparr>fs = [''x/y'' \<mapsto> File], next_id = 0, suffixes = [''123''], trace = []\<rparr>"

text \<open>The service and the world after one \<^verbatim>\<open>Open("x/y")\<close> on the disk that has the clone.\<close>

definition opened_once :: "service \<times> world" where
  "opened_once = snd (Open x0 ''x/y'' (NewService ''/data'', disk_cloned))"

text \<open>A service where two users hold the repository.\<close>

definition two_users :: service where
  "two_users = \<lparr>StorageDir = ''/data'', repoMu = Map.empty,
                 repos = [k0 \<mapsto> Repo 0 ''git'' ''/data/x/y''], repoUsers = [k0 \<mapsto> 2]\<rparr>"

text \<open>
  The service after a \<^verbatim>\<open>Close("x/y")\<close> that no \<^verbatim>\<open>Open\<close> went before, and after an
  \<^verbatim>\<open>Open("x/y")\<close> that follows it.
\<close>

definition closed_early :: service where
  "closed_early = (NewService ''/data'')\<lparr>repoUsers := [k0 \<mapsto> - 1]\<rparr>"

definition closed_then_opened :: service where
  "closed_then_opened = fst (snd (Open x0 ''x/y'' (closed_early, disk_cloned)))"

text \<open>
  The service after the first \<^verbatim>\<open>Mutex\<close> for the clone directory, and after an
  \<^verbatim>\<open>Open("x/y")\<close> that follows it.
\<close>

definition with_lock :: service where
  "with_lock = (NewService ''/data'')\<lparr>repoMu := [k0 \<mapsto> 0]\<rparr>"

definition with_lock_opened :: service where
  "with_lock_opened = fst (snd (Open x0 ''x/y'' (with_lock, disk_cloned)))"

text \<open>A \<^verbatim>\<open>Clone("x/y")\<close> on the empty disk whose \<^verbatim>\<open>vcs.Clone\<close> works.\<close>

definition cloned_once :: "(error + repo) \<times> service \<times> world" where
  "cloned_once = Clone x0 ''x/y'' info0 (NewService ''/data'', disk_empty)"

text \<open>A \<^verbatim>\<open>Clone("x/y")\<close> on the empty disk whose \<^verbatim>\<open>vcs.Clone\<close> fails.\<close>

definition failed_clone :: "(error + repo) \<times> service \<times> world" where
  "failed_clone = Clone x_fail ''x/y'' info0 (NewService ''/data'', disk_empty)"

section \<open>Properties\<close>

subsection \<open>What a call does to the service\<close>


lemma open_check_repos_eq:
  "repos s (RepoKey dir) = repos t (RepoKey dir) \<Longrightarrow> open_check x dir s w = open_check x dir t w"
  by (auto simp: open_check_def Let_def split: sum.splits option.splits)





lemma Close_effect:
  assumes "CloneDir x s p = Inr d"
  shows "Close x p s =
           Inr (if users s (RepoKey d) = 1
                then s\<lparr>repoUsers := (repoUsers s)(RepoKey d := None),
                       repos := (repos s)(RepoKey d := None)\<rparr>
                else s\<lparr>repoUsers := (repoUsers s)(RepoKey d \<mapsto> users s (RepoKey d) - 1)\<rparr>)"
  using assms by (auto simp: Close_def users_def Let_def)











subsection \<open>What the steps keep\<close>















subsection \<open>Counting down\<close>

lemma Close_times_add:
  "Close_times x p (a + b) s =
     (case Close_times x p a s of Inl e \<Rightarrow> Inl e | Inr s' \<Rightarrow> Close_times x p b s')"
  by (induction a arbitrary: s) (auto split: sum.splits)

lemma Close_times_count:
  assumes "CloneDir x s p = Inr d"
  shows "users s (RepoKey d) = int n + int m \<Longrightarrow> 0 < m \<Longrightarrow>
         \<exists>s'. Close_times x p n s = Inr s' \<and> StorageDir s' = StorageDir s \<and>
              repoUsers s' (RepoKey d) = Some (int m) \<and>
              repos s' (RepoKey d) = repos s (RepoKey d)"
  using assms
proof (induction n arbitrary: s)
  case 0
  then show ?case by (auto simp: users_def split: option.splits)
next
  case (Suc n)
  let ?s1 = "s\<lparr>repoUsers := (repoUsers s)(RepoKey d \<mapsto> users s (RepoKey d) - 1)\<rparr>"
  have c: "Close x p s = Inr ?s1" using Suc.prems by (simp add: Close_effect)
  have "\<exists>s'. Close_times x p n ?s1 = Inr s' \<and> StorageDir s' = StorageDir ?s1 \<and>
              repoUsers s' (RepoKey d) = Some (int m) \<and>
              repos s' (RepoKey d) = repos ?s1 (RepoKey d)"
    using Suc.prems by (intro Suc.IH) (auto simp: users_def CloneDir_def)
  with c show ?case by auto
qed

subsection \<open>The trace and the disk\<close>

lemma open_check_events:
  "open_check x d s w = (c, w') \<Longrightarrow>
   \<exists>evs. trace w' = trace w @ EvDetect d # evs \<and> fs w' = fs w \<and>
     (repos s (RepoKey d) \<noteq> None \<longrightarrow> evs = []) \<and>
     set evs \<subseteq> {EvStat d} \<union> range (\<lambda>t. EvVcsOpen t d)"
  by (auto simp: open_check_def os_Stat_def emit_def Let_def
           split: sum.splits option.splits if_splits)

lemma open_dir_events:
  "open_dir x d (s, w) = (res, s', w') \<Longrightarrow>
   \<exists>evs. trace w' = trace w @ EvDetect d # evs \<and> fs w' = fs w \<and>
     (repos s (RepoKey d) \<noteq> None \<longrightarrow> evs = []) \<and>
     set evs \<subseteq> {EvStat d} \<union> range (\<lambda>t. EvVcsOpen t d)"
  by (auto simp: open_dir_def split: prod.splits checked.splits dest!: open_check_events)











subsection \<open>Evaluating the concrete setting\<close>

lemmas setting =
  x0_def x_fail_def x_unrecognized_def info0_def k0_def disk_cloned_def disk_empty_def
  disk_blocked_def cloned_once_def opened_once_def two_users_def closed_early_def closed_then_opened_def with_lock_def
  with_lock_opened_def failed_clone_def

lemmas run_open =
  Open_def open_dir_def open_check_def open_commit_def Close_def CloneDir_def users_def
  NewService_def filepath_Join_def os_Stat_def emit_def new_events_def Let_def

lemmas run_clone =
  Clone_def clone_locked_def clone_into_def Mutex_def os_MkdirAll_def ioutil_TempDir_def
  os_RemoveAll_def os_Rename_def filepath_Dir_def filepath_Base_def

section \<open>The claims\<close>

subsection \<open>Open of a repository that is already open\<close>

lemma Open_cached:
  assumes "CloneDir x s p = Inr d" and "repos s (RepoKey d) = Some r"
    and "vcsTypeFromDir x (fs w) d = Inr t"
  shows "Open x p (s, w) = (Inr r, s, emit (EvDetect d) w)"
  using assms by (simp add: Open_def open_dir_def open_check_def Let_def)

text \<open>
  C1 says that an \<^verbatim>\<open>Open\<close> of a clone directory with a live repository in \<^verbatim>\<open>repos\<close> returns
  that repository and adds one to its counter, and that the matching \<^verbatim>\<open>Close\<close> brings the
  counter back to what it was. The code returns the repository (lines 103 to 107) and
  leaves the counter alone: after one \<^verbatim>\<open>Open\<close> the counter is 1, after a second \<^verbatim>\<open>Open\<close> it
  is still 1, and the \<^verbatim>\<open>Close\<close> that matches the second \<^verbatim>\<open>Open\<close> removes the counter and the
  repository, which the first caller still holds.
\<close>

theorem Open_cached_counts_nobody:
  "repoUsers (fst opened_once) k0 = Some 1 \<and>
   (case Open x0 ''x/y'' opened_once of (res, s2, w2) \<Rightarrow>
      res = Inr (Repo 0 ''git'' ''/data/x/y'') \<and>
      repos s2 k0 = Some (Repo 0 ''git'' ''/data/x/y'') \<and>
      repoUsers s2 k0 = Some 1 \<and>
      (case Close x0 ''x/y'' s2 of Inl e \<Rightarrow> False | Inr s3 \<Rightarrow>
         repoUsers s3 k0 = None \<and> repos s3 k0 = None))"
  by (simp add: setting run_open)

subsection \<open>Clone of a repository that is not cloned yet\<close>

text \<open>
  On the empty disk the first \<^verbatim>\<open>Clone("x/y")\<close> runs \<^verbatim>\<open>vcs.Clone\<close> and returns the repository,
  and a second \<^verbatim>\<open>Clone("x/y")\<close> after it returns the same repository and runs nothing.
\<close>

lemma Clone_twice_clones_once:
  "fst cloned_once = Inr (Repo 1 ''git'' ''/data/x/y'') \<and>
   (case Clone x0 ''x/y'' info0 (snd cloned_once) of (res2, s2, w2) \<Rightarrow>
      res2 = Inr (Repo 1 ''git'' ''/data/x/y'') \<and>
      filter (\<lambda>ev. case ev of EvVcsClone t r \<Rightarrow> True | _ \<Rightarrow> False) (new_events disk_empty w2)
        = [EvVcsClone ''/data/x/_tmp_y-123'' None])"
  by (simp add: setting run_open run_clone)

text \<open>
  C2 says that of N calls of \<^verbatim>\<open>Clone\<close> for a repository with no clone directory, one runs
  \<^verbatim>\<open>vcs.Clone\<close> and all return a repository. The calls may come one after the other. Where
  the disk has no clone directory \<^verbatim>\<open>/data/x/y\<close> but a regular file at the relative path
  \<^verbatim>\<open>x/y\<close>, the first \<^verbatim>\<open>open\<close> of \<^verbatim>\<open>Clone\<close>, which is given \<^verbatim>\<open>repoPath\<close> (line 158), fails with
  an error that is not \<^verbatim>\<open>os.IsNotExist\<close>: two calls of \<^verbatim>\<open>Clone("x/y")\<close> both return that error,
  \<^verbatim>\<open>vcs.Clone\<close> never runs, and the clone directory is not made.
\<close>

theorem Clone_never_clones:
  "fs disk_blocked ''/data/x/y'' = None \<and>
   (case Clone x0 ''x/y'' info0 (NewService ''/data'', disk_blocked) of (res1, s1, w1) \<Rightarrow>
      res1 = Inl (ErrCloneNotDir ''x/y'') \<and>
      (case Clone x0 ''x/y'' info0 (s1, w1) of (res2, s2, w2) \<Rightarrow>
         res2 = Inl (ErrCloneNotDir ''x/y'') \<and>
         new_events disk_blocked w2 =
           [EvDetect ''x/y'', EvStat ''x/y'', EvDetect ''x/y'', EvStat ''x/y''] \<and>
         fs w2 ''/data/x/y'' = None))"
  by (simp add: setting run_open Clone_def)

subsection \<open>Clone of a repository that is already cloned\<close>

text \<open>
  C3 says that \<^verbatim>\<open>Clone\<close> first opens the clone directory without the per-directory mutex, and
  returns the repository if that works. The first \<^verbatim>\<open>open\<close> of \<^verbatim>\<open>Clone\<close> (line 158) is given
  \<^verbatim>\<open>repoPath\<close>, not \<^verbatim>\<open>cloneDir\<close>. With the clone at \<^verbatim>\<open>/data/x/y\<close>, where \<^verbatim>\<open>Open("x/y")\<close> works,
  \<^verbatim>\<open>Clone("x/y")\<close> stats \<^verbatim>\<open>x/y\<close>, finds nothing, takes the mutex, and opens the clone
  directory under it. And where \<^verbatim>\<open>x/y\<close> is a file, \<^verbatim>\<open>Clone\<close> fails though the clone is there.
\<close>

theorem Clone_opens_repoPath:
  "fst (Open x0 ''x/y'' (NewService ''/data'', disk_cloned)) = Inr (Repo 0 ''git'' ''/data/x/y'') \<and>
   (case Clone x0 ''x/y'' info0 (NewService ''/data'', disk_cloned) of (res, s', w') \<Rightarrow>
      res = Inr (Repo 1 ''git'' ''/data/x/y'') \<and>
      new_events disk_cloned w' =
        [EvDetect ''x/y'', EvStat ''x/y'', EvLock 0,
         EvDetect ''/data/x/y'', EvStat ''/data/x/y'', EvVcsOpen ''git'' ''/data/x/y'',
         EvUnlock 0]) \<and>
   fst (Clone x0 ''x/y'' info0
          (NewService ''/data'', disk_cloned\<lparr>fs := (fs disk_cloned)(''x/y'' \<mapsto> File)\<rparr>))
     = Inl (ErrCloneNotDir ''x/y'')"
  by (simp add: setting run_open Clone_def clone_locked_def Mutex_def)

subsection \<open>A clone that fails\<close>




subsection \<open>The counters and the repositories\<close>





subsection \<open>Open of a repository that is not on the disk\<close>



subsection \<open>Close as often as the counter says\<close>

text \<open>
  C7: where the counter of the clone directory is \<open>n > 0\<close>, \<open>n\<close> calls of \<^verbatim>\<open>Close\<close> remove
  the repository and the counter, and not fewer: after \<open>m < n\<close> calls the counter is
  \<open>n - m\<close> and the repository is where it was. \<^verbatim>\<open>Close\<close> works on the service alone, it
  does not touch the disk. The next \<^verbatim>\<open>Open\<close> is a cold one: it looks at the disk and
  returns what an \<^verbatim>\<open>Open\<close> on a new service returns.
\<close>

theorem Close_refcount_times:
  assumes "CloneDir x s p = Inr d" and "repoUsers s (RepoKey d) = Some (int n)" and "0 < n"
  shows "\<exists>s'. Close_times x p n s = Inr s' \<and>
           repos s' (RepoKey d) = None \<and> repoUsers s' (RepoKey d) = None \<and>
           (\<forall>m<n. \<exists>t. Close_times x p m s = Inr t \<and>
                       repoUsers t (RepoKey d) = Some (int n - int m) \<and>
                       repos t (RepoKey d) = repos s (RepoKey d)) \<and>
           (\<forall>w. open_check x d s' w = open_check x d (NewService (StorageDir s)) w) \<and>
           (\<forall>w. fst (Open x p (s', w)) = fst (Open x p (NewService (StorageDir s), w)) \<and>
                snd (snd (Open x p (s', w))) = snd (snd (Open x p (NewService (StorageDir s), w))))"
proof -
  obtain k where n: "n = Suc k" using assms(3) by (cases n) auto
  have u: "users s (RepoKey d) = int k + int 1" using assms(2) n by (simp add: users_def)
  from Close_times_count [OF assms(1) u]
  obtain t where t: "Close_times x p k s = Inr t" "StorageDir t = StorageDir s"
    "repoUsers t (RepoKey d) = Some 1" by auto
  have dt: "CloneDir x t p = Inr d" using assms(1) t(2) by (simp add: CloneDir_def)
  let ?s' = "t\<lparr>repoUsers := (repoUsers t)(RepoKey d := None),
               repos := (repos t)(RepoKey d := None)\<rparr>"
  have ct: "Close x p t = Inr ?s'" using t(3) by (simp add: Close_effect [OF dt] users_def)
  have "Close_times x p (k + 1) s = Inr ?s'"
    unfolding Close_times_add using t(1) ct by simp
  then have fin: "Close_times x p n s = Inr ?s'" using n by simp
  have early: "\<forall>m<n. \<exists>t. Close_times x p m s = Inr t \<and>
                 repoUsers t (RepoKey d) = Some (int n - int m) \<and>
                 repos t (RepoKey d) = repos s (RepoKey d)"
  proof (intro allI impI)
    fix m assume m: "m < n"
    then have "users s (RepoKey d) = int m + int (n - m)" "0 < n - m"
      using assms(2) by (auto simp: users_def)
    from Close_times_count [OF assms(1) this]
    show "\<exists>t. Close_times x p m s = Inr t \<and>
              repoUsers t (RepoKey d) = Some (int n - int m) \<and>
              repos t (RepoKey d) = repos s (RepoKey d)"
      using m by (auto simp: of_nat_diff)
  qed
  have cold: "\<And>w. open_check x d ?s' w = open_check x d (NewService (StorageDir s)) w"
    by (rule open_check_repos_eq) (simp add: NewService_def)
  have cd: "CloneDir x ?s' p = Inr d" "CloneDir x (NewService (StorageDir s)) p = Inr d"
    using dt assms(1) by (simp_all add: CloneDir_def NewService_def)
  have op: "\<And>w. fst (Open x p (?s', w)) = fst (Open x p (NewService (StorageDir s), w)) \<and>
                snd (snd (Open x p (?s', w))) = snd (snd (Open x p (NewService (StorageDir s), w)))"
    unfolding Open_def using cd cold
    by (auto simp: open_dir_def open_commit_def Let_def NewService_def
             split: prod.splits checked.splits option.splits)
  show ?thesis using fin early cold op by (intro exI [of _ ?s']) simp
qed

theorem Close_refcount_times_witness:
  "CloneDir x0 two_users ''x/y'' = Inr ''/data/x/y'' \<and>
   repoUsers two_users (RepoKey ''/data/x/y'') = Some (int 2) \<and> (0::nat) < 2 \<and>
   (case Close_times x0 ''x/y'' 1 two_users of Inl e \<Rightarrow> False | Inr t \<Rightarrow>
      repoUsers t k0 = Some 1 \<and> repos t k0 = Some (Repo 0 ''git'' ''/data/x/y'')) \<and>
   (case Close_times x0 ''x/y'' 2 two_users of Inl e \<Rightarrow> False | Inr s' \<Rightarrow>
      repos s' k0 = None \<and> repoUsers s' k0 = None \<and>
      fst (Open x0 ''x/y'' (s', disk_empty)) = Inl (ErrNotExist ''/data/x/y''))"
proof -
  have d: "CloneDir x0 two_users ''x/y'' = Inr ''/data/x/y''"
    by (simp add: setting run_open)
  have u: "repoUsers two_users (RepoKey ''/data/x/y'') = Some (int 2)"
    by (simp add: two_users_def k0_def)
  have n: "(0::nat) < 2" by simp
  have cold: "fst (Open x0 ''x/y'' (NewService (StorageDir two_users), disk_empty))
                = Inl (ErrNotExist ''/data/x/y'')"
    by (simp add: setting run_open)
  from Close_refcount_times [OF d u n] obtain s' where
    s': "Close_times x0 ''x/y'' 2 two_users = Inr s'"
      "repos s' (RepoKey ''/data/x/y'') = None" "repoUsers s' (RepoKey ''/data/x/y'') = None"
      "\<forall>m<2. \<exists>t. Close_times x0 ''x/y'' m two_users = Inr t \<and>
                  repoUsers t (RepoKey ''/data/x/y'') = Some (int 2 - int m) \<and>
                  repos t (RepoKey ''/data/x/y'') = repos two_users (RepoKey ''/data/x/y'')"
      "\<forall>w. fst (Open x0 ''x/y'' (s', w)) = fst (Open x0 ''x/y'' (NewService (StorageDir two_users), w))"
    by blast
  have "(1::nat) < 2" by simp
  with s'(4) have "\<exists>t. Close_times x0 ''x/y'' 1 two_users = Inr t \<and>
      repoUsers t (RepoKey ''/data/x/y'') = Some (int 2 - int 1) \<and>
      repos t (RepoKey ''/data/x/y'') = repos two_users (RepoKey ''/data/x/y'')"
    by blast
  then obtain t where
    t: "Close_times x0 ''x/y'' 1 two_users = Inr t" "repoUsers t (RepoKey ''/data/x/y'') = Some 1"
      "repos t (RepoKey ''/data/x/y'') = repos two_users (RepoKey ''/data/x/y'')"
    by auto
  show ?thesis
    using d u s'(1,2,3,5) t cold by (simp add: k0_def two_users_def)
qed

subsection \<open>The order of the steps in Open\<close>

text \<open>
  C8, as amended. Every \<^verbatim>\<open>Open\<close> starts with \<^verbatim>\<open>vcsTypeFromDir\<close> on the clone directory, before
  it looks into \<^verbatim>\<open>repos\<close>; if that fails, \<^verbatim>\<open>Open\<close> returns its error, also where a
  repository is registered. The stat of the clone directory and \<^verbatim>\<open>vcs.Open\<close> come only
  after that, and only where no repository is registered: an \<^verbatim>\<open>Open\<close> of a registered
  repository calls \<^verbatim>\<open>vcsTypeFromDir\<close> and nothing else, and returns the repository if
  \<^verbatim>\<open>vcsTypeFromDir\<close> gave a type.
\<close>

theorem Open_detects_first:
  assumes "Open x p (s, w) = (res, s', w')" and "CloneDir x s p = Inr d"
  shows "\<exists>evs. new_events w w' = EvDetect d # evs \<and>
           (repos s (RepoKey d) \<noteq> None \<longrightarrow> evs = []) \<and>
           (\<forall>ev \<in> set evs. (ev = EvStat d \<or> (\<exists>t. ev = EvVcsOpen t d)) \<and>
                           repos s (RepoKey d) = None) \<and>
           (\<forall>e. vcsTypeFromDir x (fs w) d = Inl e \<longrightarrow> res = Inl e \<and> evs = []) \<and>
           (\<forall>r t. repos s (RepoKey d) = Some r \<longrightarrow> vcsTypeFromDir x (fs w) d = Inr t \<longrightarrow>
                   res = Inr r \<and> s' = s)"
proof -
  have o: "open_dir x d (s, w) = (res, s', w')" using assms by (simp add: Open_def)
  from open_dir_events [OF o] obtain evs where
    e: "trace w' = trace w @ EvDetect d # evs" "repos s (RepoKey d) \<noteq> None \<longrightarrow> evs = []"
      "set evs \<subseteq> {EvStat d} \<union> range (\<lambda>t. EvVcsOpen t d)"
    by auto
  have n: "new_events w w' = EvDetect d # evs" using e(1) by (simp add: new_events_def)
  have f: "\<forall>e. vcsTypeFromDir x (fs w) d = Inl e \<longrightarrow> res = Inl e \<and> evs = []"
    using o e(1) by (auto simp: open_dir_def open_check_def emit_def Let_def)
  have c: "\<forall>r t. repos s (RepoKey d) = Some r \<longrightarrow> vcsTypeFromDir x (fs w) d = Inr t \<longrightarrow>
                  res = Inr r \<and> s' = s"
    using o by (auto simp: open_dir_def open_check_def Let_def)
  have m: "\<forall>ev \<in> set evs. (ev = EvStat d \<or> (\<exists>t. ev = EvVcsOpen t d)) \<and>
                          repos s (RepoKey d) = None"
    using e(2,3) by auto
  show ?thesis using n e(2) m f c by blast
qed

theorem Open_detects_first_witness:
  "CloneDir x0 (NewService ''/data'') ''x/y'' = Inr ''/data/x/y'' \<and>
   new_events disk_cloned (snd opened_once) =
     [EvDetect ''/data/x/y'', EvStat ''/data/x/y'', EvVcsOpen ''git'' ''/data/x/y''] \<and>
   repos (NewService ''/data'') (RepoKey ''/data/x/y'') = None \<and>
   CloneDir x0 (fst opened_once) ''x/y'' = Inr ''/data/x/y'' \<and>
   repos (fst opened_once) (RepoKey ''/data/x/y'') = Some (Repo 0 ''git'' ''/data/x/y'') \<and>
   new_events (snd opened_once) (snd (snd (Open x0 ''x/y'' opened_once))) = [EvDetect ''/data/x/y''] \<and>
   fst (Open x0 ''x/y'' opened_once) = Inr (Repo 0 ''git'' ''/data/x/y'') \<and>
   fst (Open x_unrecognized ''x/y'' opened_once) = Inl (ErrOther ''unrecognized'')"
proof -
  let ?d = "''/data/x/y''"
  have d1: "CloneDir x0 (NewService ''/data'') ''x/y'' = Inr ?d" by (simp add: setting run_open)
  have d2: "CloneDir x0 (fst opened_once) ''x/y'' = Inr ?d" by (simp add: setting run_open)
  have d3: "CloneDir x_unrecognized (fst opened_once) ''x/y'' = Inr ?d"
    by (simp add: setting run_open)
  have r2: "repos (fst opened_once) (RepoKey ?d) = Some (Repo 0 ''git'' ?d)"
    by (simp add: setting run_open)
  have t2: "vcsTypeFromDir x0 (fs (snd opened_once)) ?d = Inr ''git''" by (simp add: x0_def)
  have t3: "vcsTypeFromDir x_unrecognized (fs (snd opened_once)) ?d = Inl (ErrOther ''unrecognized'')"
    by (simp add: x_unrecognized_def)
  have o1: "Open x0 ''x/y'' (NewService ''/data'', disk_cloned)
              = (fst (Open x0 ''x/y'' (NewService ''/data'', disk_cloned)), fst opened_once, snd opened_once)"
    by (simp add: opened_once_def)
  have o2: "Open x0 ''x/y'' (fst opened_once, snd opened_once)
              = (fst (Open x0 ''x/y'' opened_once), fst (snd (Open x0 ''x/y'' opened_once)),
                 snd (snd (Open x0 ''x/y'' opened_once)))"
    by simp
  have o3: "Open x_unrecognized ''x/y'' (fst opened_once, snd opened_once)
              = (fst (Open x_unrecognized ''x/y'' opened_once),
                 fst (snd (Open x_unrecognized ''x/y'' opened_once)),
                 snd (snd (Open x_unrecognized ''x/y'' opened_once)))"
    by simp
  have cold: "new_events disk_cloned (snd opened_once) = [EvDetect ?d, EvStat ?d, EvVcsOpen ''git'' ?d]"
    by (simp add: setting run_open)
  from Open_detects_first [OF o2 d2] r2 t2
  have a: "new_events (snd opened_once) (snd (snd (Open x0 ''x/y'' opened_once))) = [EvDetect ?d]"
    "fst (Open x0 ''x/y'' opened_once) = Inr (Repo 0 ''git'' ?d)"
    by auto
  from Open_detects_first [OF o3 d3] t3
  have b: "fst (Open x_unrecognized ''x/y'' opened_once) = Inl (ErrOther ''unrecognized'')"
    by auto
  from Open_detects_first [OF o1 d1] cold
  have c: "repos (NewService ''/data'') (RepoKey ?d) = None"
    by auto
  show ?thesis using d1 d2 r2 cold a b c by simp
qed

text \<open>
  C8 fails as it stands: an \<^verbatim>\<open>Open\<close> of a repository that is registered calls
  \<^verbatim>\<open>vcsTypeFromDir\<close> all the same, and fails if that fails.
\<close>

theorem Open_cached_detects:
  "repos (fst opened_once) k0 = Some (Repo 0 ''git'' ''/data/x/y'') \<and>
   fst (Open x0 ''x/y'' opened_once) = Inr (Repo 0 ''git'' ''/data/x/y'') \<and>
   new_events (snd opened_once) (snd (snd (Open x0 ''x/y'' opened_once))) = [EvDetect ''/data/x/y''] \<and>
   fst (Open x_unrecognized ''x/y'' opened_once) = Inl (ErrOther ''unrecognized'')"
  by (simp add: setting run_open)

subsection \<open>The per-directory mutexes\<close>



subsection \<open>Close without Open\<close>




end
